theory Spec2Isabelle
  imports Complex_Main
begin

section \<open>The random source\<close>

text \<open>
  The module-level generator of Python's \<open>random\<close> is modelled as a tape of raw draws:
  \<open>g i\<close> is the entropy consumed by the \<open>i\<close>-th call that follows. Every library call
  takes the head of the tape and returns the rest, so the order of the calls in the
  source is the order of the draws in the model, and a seed stands for a tape.
  \<open>random.random()\<close> returns a multiple of \<open>2^-53\<close> in \<open>[0, 1)\<close>. \<open>randint\<close> and
  \<open>choice\<close> go through \<open>_randbelow\<close>, which returns a number below its argument: here
  the draw reduced modulo the argument, so that every number below it is returned on
  some draw. Every call site of the source passes a non-empty range or sequence.
\<close>

type_synonym rng = "nat \<Rightarrow> nat"

definition getrand :: "rng \<Rightarrow> nat \<times> rng" where
  "getrand g = (g 0, \<lambda>i. g (Suc i))"

definition random_random :: "rng \<Rightarrow> real \<times> rng" where
  "random_random g = (let (k, g') = getrand g in (real (k mod 2 ^ 53) / 2 ^ 53, g'))"

definition randbelow :: "nat \<Rightarrow> rng \<Rightarrow> nat \<times> rng" where
  "randbelow n g = (let (k, g') = getrand g in (k mod n, g'))"

definition random_randint :: "int \<Rightarrow> int \<Rightarrow> rng \<Rightarrow> int \<times> rng" where
  "random_randint a b g = (let (k, g') = randbelow (nat (b - a + 1)) g in (a + int k, g'))"

definition random_choice :: "'a list \<Rightarrow> rng \<Rightarrow> 'a \<times> rng" where
  "random_choice seq g = (let (k, g') = randbelow (length seq) g in (seq ! k, g'))"

definition random_uniform :: "real \<Rightarrow> real \<Rightarrow> rng \<Rightarrow> real \<times> rng" where
  "random_uniform a b g = (let (u, g') = random_random g in (a + (b - a) * u, g'))"

section \<open>Python's \<open>round(x, ndigits)\<close>\<close>

text \<open>
  \<open>round\<close> on a float is correctly rounded from the exact value of its argument, ties
  going to the even neighbour.
\<close>

definition round_half_even :: "real \<Rightarrow> int" where
  "round_half_even y =
     (let f = \<lfloor>y\<rfloor>; d = y - of_int f
      in if d < 1 / 2 then f else if 1 / 2 < d then f + 1 else if even f then f else f + 1)"

definition py_round :: "real \<Rightarrow> nat \<Rightarrow> real" where
  "py_round x ndigits = of_int (round_half_even (x * 10 ^ ndigits)) / 10 ^ ndigits"

section \<open>Constants of the module\<close>

text \<open>\<open>DEPOT_PROBABILITY = 0.10\<close>: the double nearest to one tenth, written exactly.\<close>

definition DEPOT_PROBABILITY :: real where
  "DEPOT_PROBABILITY = 3602879701896397 / 2 ^ 55"

definition PRODUCT_TYPES :: "string list" where
  "PRODUCT_TYPES = [''Leafy'', ''Dairy'', ''Herbs'', ''Meat'', ''Fruit'']"

definition PACKAGING_TYPES :: "string list" where
  "PACKAGING_TYPES = [''Crate'', ''Box'', ''Pallet'']"

definition CONTAMINATION_GROUPS :: "string list" where
  "CONTAMINATION_GROUPS = [''A'', ''B'', ''C'']"

definition HANDLING_NOTES :: "string list" where
  "HANDLING_NOTES = [''Fragile'', ''Keep Upright'', ''None'']"

definition MIN_CAPACITY :: int where
  "MIN_CAPACITY = 100"

definition MAX_CAPACITY :: int where
  "MAX_CAPACITY = 500"

definition HOURS_IN_DAY :: int where
  "HOURS_IN_DAY = 24"

section \<open>The attribute bundle: \<open>_make_customer_fields\<close>\<close>

text \<open>
  A date is its proleptic Gregorian ordinal (\<open>date.toordinal()\<close>), so that adding
  \<open>timedelta(days=k)\<close> is adding \<open>k\<close>. The rows keep the dates themselves; their rendering
  by \<open>strftime("%m/%d/%Y")\<close> is a one-to-one printing of the date. The argument \<open>today\<close>
  is what \<open>datetime.now().date()\<close> returns at the call.
\<close>

type_synonym date = int

record customer_fields =
  Demand_unit :: int
  Product_Type :: string
  Temp_Min :: int
  Temp_Max :: int
  Ripeness_Date :: date
  Expiration_Date :: date
  Packaging_Type :: string
  Contamination_Group :: string
  Handling_Notes :: string
  Urgency_Score :: real
  Time_Window_Start :: string
  Time_Window_End :: string

definition make_customer_fields :: "date \<Rightarrow> rng \<Rightarrow> customer_fields \<times> rng" where
  "make_customer_fields today g0 =
     (let (ptype, g1) = random_choice PRODUCT_TYPES g0;
          (tmin, tmax) =
            (if ptype = ''Leafy'' then (1, 7)
             else if ptype = ''Dairy'' then (0, 4)
             else if ptype = ''Herbs'' then (5, 10)
             else if ptype = ''Meat'' then (- 2, 0)
             else (4, 8));
          (demand, g2) = random_randint 1 25 g1;
          (ripeness_offset, g3) = random_randint 0 3 g2;
          ripeness_date = today + ripeness_offset;
          (exp_offset, g4) = random_randint 2 7 g3;
          exp_date = ripeness_date + exp_offset;
          (packaging, g5) = random_choice PACKAGING_TYPES g4;
          (contam_grp, g6) = random_choice CONTAMINATION_GROUPS g5;
          (handling, g7) = random_choice HANDLING_NOTES g6;
          (u, g8) = random_random g7;
          urgency = py_round u 2;
          (tw_choice, g9) = random_choice [''morning'', ''afternoon'', ''evening''] g8;
          (tw_start, tw_end) =
            (if tw_choice = ''morning'' then (''08:00'', ''12:00'')
             else if tw_choice = ''afternoon'' then (''12:00'', ''17:00'')
             else (''17:00'', ''20:00''))
      in (\<lparr>Demand_unit = demand, Product_Type = ptype, Temp_Min = tmin, Temp_Max = tmax,
           Ripeness_Date = ripeness_date, Expiration_Date = exp_date,
           Packaging_Type = packaging, Contamination_Group = contam_grp,
           Handling_Notes = handling, Urgency_Score = urgency,
           Time_Window_Start = tw_start, Time_Window_End = tw_end\<rparr>, g9))"

section \<open>The point sampler: \<open>_random_point_within_radius\<close>\<close>

text \<open>
  The floats of the sampler are read as the real numbers they stand for, and the calls
  of \<open>math\<close> as the real functions they approximate. \<open>math.atan2 y x\<close> is the angle of
  the point \<open>(x, y)\<close> in \<open>(-\<pi>, \<pi>]\<close>, and \<open>0\<close> at the origin.
\<close>

definition R_EARTH_MILES :: real where
  "R_EARTH_MILES = 39588 / 10"

definition radians :: "real \<Rightarrow> real" where
  "radians x = x * pi / 180"

definition degrees :: "real \<Rightarrow> real" where
  "degrees x = x * 180 / pi"

definition atan2 :: "real \<Rightarrow> real \<Rightarrow> real" where
  "atan2 y x =
     (if 0 < x then arctan (y / x)
      else if x < 0 then (if 0 \<le> y then arctan (y / x) + pi else arctan (y / x) - pi)
      else if 0 < y then pi / 2
      else if y < 0 then - (pi / 2)
      else 0)"

text \<open>The body of the sampler after its two draws \<open>u\<close> and \<open>bearing\<close>.\<close>

definition point_from_draws :: "real \<Rightarrow> real \<Rightarrow> real \<Rightarrow> real \<Rightarrow> real \<Rightarrow> real \<times> real" where
  "point_from_draws lat_center lon_center radius_miles u bearing =
     (let ang_rad = radius_miles / R_EARTH_MILES;
          cos_theta = 1 - u * (1 - cos ang_rad);
          theta = arccos cos_theta;
          lat0 = radians lat_center;
          lon0 = radians lon_center;
          lat_new = arcsin (sin lat0 * cos theta + cos lat0 * sin theta * cos bearing);
          lon_new = lon0 + atan2 (sin bearing * sin theta * cos lat0)
                                 (cos theta - sin lat0 * sin lat_new)
      in (degrees lat_new, degrees lon_new))"

definition random_point_within_radius :: "real \<Rightarrow> real \<Rightarrow> real \<Rightarrow> rng \<Rightarrow> (real \<times> real) \<times> rng" where
  "random_point_within_radius lat_center lon_center radius_miles g0 =
     (let (u, g1) = random_random g0;
          (bearing, g2) = random_uniform 0 (2 * pi) g1
      in (point_from_draws lat_center lon_center radius_miles u bearing, g2))"


section \<open>The location table: \<open>generate_synthetic_locations\<close>\<close>

record location = customer_fields +
  Location_ID :: string
  Latitude :: real
  Longitude :: real
  Depot_Flag :: string

definition location_row :: "string \<Rightarrow> real \<Rightarrow> real \<Rightarrow> string \<Rightarrow> customer_fields \<Rightarrow> location" where
  "location_row loc_id lat lon flag f =
     \<lparr>Demand_unit = Demand_unit f, Product_Type = Product_Type f, Temp_Min = Temp_Min f,
      Temp_Max = Temp_Max f, Ripeness_Date = Ripeness_Date f,
      Expiration_Date = Expiration_Date f, Packaging_Type = Packaging_Type f,
      Contamination_Group = Contamination_Group f, Handling_Notes = Handling_Notes f,
      Urgency_Score = Urgency_Score f, Time_Window_Start = Time_Window_Start f,
      Time_Window_End = Time_Window_End f,
      Location_ID = loc_id, Latitude = lat, Longitude = lon, Depot_Flag = flag\<rparr>"

text \<open>
  The two date rules of a row generated on the day \<open>today\<close>: ripeness zero to three
  days later, expiration two to seven days after ripeness.
\<close>

definition dates_consistent :: "date \<Rightarrow> location \<Rightarrow> bool" where
  "dates_consistent today row \<longleftrightarrow>
     0 \<le> Ripeness_Date row - today \<and> Ripeness_Date row - today \<le> 3 \<and>
     2 \<le> Expiration_Date row - Ripeness_Date row \<and>
     Expiration_Date row - Ripeness_Date row \<le> 7"

text \<open>The format \<open>{i:03d}\<close> of a non-negative integer: its decimal digits, padded with zeros to three.\<close>

fun decimal :: "nat \<Rightarrow> string" where
  "decimal n =
     (if n < 10 then [''0123456789'' ! n]
      else decimal (n div 10) @ [''0123456789'' ! (n mod 10)])"

declare decimal.simps [simp del]

definition zero_pad :: "nat \<Rightarrow> string \<Rightarrow> string" where
  "zero_pad w s = replicate (w - length s) CHR ''0'' @ s"

definition format_03d :: "nat \<Rightarrow> string" where
  "format_03d i = zero_pad 3 (decimal i)"

definition format_02d :: "nat \<Rightarrow> string" where
  "format_02d i = zero_pad 2 (decimal i)"

text \<open>
  One pass of the loop over \<open>range(2, num_records + 1)\<close>, and the loop: \<open>k\<close> passes from
  index \<open>i\<close> on. The clock gives the date that the \<open>j\<close>-th call of
  \<open>_make_customer_fields\<close> of the run reads (calls counted from 0), so the row of index \<open>i\<close> reads
  \<open>clock (i - 1)\<close>.
\<close>

definition sampled_row :: "(nat \<Rightarrow> date) \<Rightarrow> real \<Rightarrow> real \<Rightarrow> real \<Rightarrow> nat \<Rightarrow> rng \<Rightarrow> location \<times> rng" where
  "sampled_row clock lat_center lon_center radius_miles i g0 =
     (let loc_id = ''L'' @ format_03d i;
          ((lat_rand, lon_rand), g1) = random_point_within_radius lat_center lon_center radius_miles g0;
          (d, g2) = random_random g1;
          is_depot = (d < DEPOT_PROBABILITY);
          (customer_data, g3) = make_customer_fields (clock (i - 1)) g2
      in (location_row loc_id (py_round lat_rand 6) (py_round lon_rand 6)
            (if is_depot then ''TRUE'' else ''FALSE'') customer_data, g3))"

primrec sampled_rows :: "(nat \<Rightarrow> date) \<Rightarrow> real \<Rightarrow> real \<Rightarrow> real \<Rightarrow> nat \<Rightarrow> nat \<Rightarrow> rng \<Rightarrow> location list \<times> rng" where
  "sampled_rows clock lat_center lon_center radius_miles 0 i g = ([], g)"
| "sampled_rows clock lat_center lon_center radius_miles (Suc k) i g =
     (let (row, g1) = sampled_row clock lat_center lon_center radius_miles i g;
          (rows, g2) = sampled_rows clock lat_center lon_center radius_miles k (Suc i) g1
      in (row # rows, g2))"

definition generate_synthetic_locations ::
    "(nat \<Rightarrow> date) \<Rightarrow> int \<Rightarrow> real \<Rightarrow> real \<Rightarrow> real \<Rightarrow> rng \<Rightarrow> location list \<times> rng" where
  "generate_synthetic_locations clock num_records lat_center lon_center radius_miles g0 =
     (let (depot_fields, g1) = make_customer_fields (clock 0) g0;
          depot = location_row ''L001'' (py_round lat_center 6) (py_round lon_center 6)
                    ''TRUE'' depot_fields;
          (rows, g2) = sampled_rows clock lat_center lon_center radius_miles
                         (nat (num_records - 1)) 2 g1
      in (depot # rows, g2))"

section \<open>The fleet: \<open>generate_synthetic_vehicles\<close>\<close>

text \<open>
  \<open>0.30 * total_locations\<close> is a product of doubles. The literal \<open>0.30\<close> is the double
  \<open>5404319552844595 / 2^54\<close>, \<open>total_locations\<close> is converted to the nearest double, and
  the exact product is rounded to the nearest double, ties to even. A positive double
  is an integer of at most 53 significant bits times a power of two, so the rounding
  is done on the numerator over \<open>2^54\<close>.
\<close>

fun bit_length :: "nat \<Rightarrow> nat" where
  "bit_length n = (if n = 0 then 0 else Suc (bit_length (n div 2)))"

declare bit_length.simps [simp del]

definition round_to_double :: "nat \<Rightarrow> nat" where
  "round_to_double p =
     (let l = bit_length p
      in if l \<le> 53 then p
         else (let s = l - 53; q = p div 2 ^ s; r = p mod 2 ^ s
               in (if 2 * r < 2 ^ s \<or> (2 * r = 2 ^ s \<and> even q) then q else q + 1) * 2 ^ s))"

definition mul_0_30 :: "nat \<Rightarrow> real" where
  "mul_0_30 n = real (round_to_double (5404319552844595 * round_to_double n)) / 2 ^ 54"

definition fleet_size :: "nat \<Rightarrow> int" where
  "fleet_size total_locations =
     (let num_vehicles = \<lceil>mul_0_30 total_locations\<rceil>
      in if num_vehicles < 1 then 1 else num_vehicles)"

datatype error = ValueError string

text \<open>The vehicle's columns \<open>Temp_Min\<close> and \<open>Temp_Max\<close> carry the prefix \<open>Vehicle\<close> here.\<close>

record vehicle =
  Vehicle_ID :: string
  Capacity_boxes :: int
  Vehicle_Temp_Min :: int
  Vehicle_Temp_Max :: int
  Start_Location :: string
  Available_From :: string
  Available_Until :: string

definition depot_ids_of :: "location list \<Rightarrow> string list" where
  "depot_ids_of all_locations_df =
     map Location_ID (filter (\<lambda>r. Depot_Flag r = ''TRUE'') all_locations_df)"

definition vehicle_row :: "string list \<Rightarrow> nat \<Rightarrow> rng \<Rightarrow> vehicle \<times> rng" where
  "vehicle_row depot_ids i g0 =
     (let vid = ''V'' @ format_03d i;
          (cap, g1) = random_randint MIN_CAPACITY MAX_CAPACITY g0;
          ((tmin, tmax), g2) = random_choice [(- 2, 10), (0, 8), (- 5, 4)] g1;
          (start_hour, g3) = random_randint 0 (HOURS_IN_DAY - 1) g2;
          (end_hour, g4) = random_randint start_hour (HOURS_IN_DAY - 1) g3;
          available_from = format_02d (nat start_hour) @ '':00'';
          available_until = format_02d (nat end_hour) @ '':00'';
          (start_loc, g5) = random_choice depot_ids g4
      in (\<lparr>Vehicle_ID = vid, Capacity_boxes = cap, Vehicle_Temp_Min = tmin,
           Vehicle_Temp_Max = tmax, Start_Location = start_loc,
           Available_From = available_from, Available_Until = available_until\<rparr>, g5))"

primrec vehicle_rows :: "string list \<Rightarrow> nat \<Rightarrow> nat \<Rightarrow> rng \<Rightarrow> vehicle list \<times> rng" where
  "vehicle_rows depot_ids 0 i g = ([], g)"
| "vehicle_rows depot_ids (Suc k) i g =
     (let (row, g1) = vehicle_row depot_ids i g;
          (rows, g2) = vehicle_rows depot_ids k (Suc i) g1
      in (row # rows, g2))"

definition generate_synthetic_vehicles :: "location list \<Rightarrow> rng \<Rightarrow> (error + vehicle list) \<times> rng" where
  "generate_synthetic_vehicles all_locations_df g0 =
     (let total_locations = length all_locations_df;
          num_vehicles = fleet_size total_locations;
          depot_ids = depot_ids_of all_locations_df
      in if depot_ids = []
         then (Inl (ValueError ''No depot found in locations data; cannot generate vehicles.''), g0)
         else (let (rows, g1) = vehicle_rows depot_ids (nat num_vehicles) 1 g0
               in (Inr rows, g1)))"

section \<open>The point sampler in double precision\<close>













section \<open>A generation run\<close>

text \<open>
  What \<open>main\<close> computes between parsing its arguments and writing the two files: the
  location table, then the vehicle table from it, on the same random source. The
  argument \<open>seed\<close> is the state of the random source when the run starts.
\<close>

definition generation_run ::
    "(nat \<Rightarrow> date) \<Rightarrow> rng \<Rightarrow> int \<Rightarrow> real \<Rightarrow> real \<Rightarrow> real \<Rightarrow> location list \<times> (error + vehicle list)" where
  "generation_run clock seed num_records lat lon radius =
     (let (df_loc, g1) = generate_synthetic_locations clock num_records lat lon radius seed;
          (df_veh, g2) = generate_synthetic_vehicles df_loc g1
      in (df_loc, df_veh))"

section \<open>Properties of the random source and of rounding\<close>

lemma random_random_eq: "random_random g = (real (g 0 mod 2 ^ 53) / 2 ^ 53, \<lambda>i. g (Suc i))"
  by (simp add: random_random_def getrand_def)

lemma randbelow_eq: "randbelow n g = (g 0 mod n, \<lambda>i. g (Suc i))"
  by (simp add: randbelow_def getrand_def)

lemma random_randint_eq:
  "random_randint a b g = (a + int (g 0 mod nat (b - a + 1)), \<lambda>i. g (Suc i))"
  by (simp add: random_randint_def randbelow_eq)

lemma random_choice_eq: "random_choice seq g = (seq ! (g 0 mod length seq), \<lambda>i. g (Suc i))"
  by (simp add: random_choice_def randbelow_eq)

lemma random_uniform_eq:
  "random_uniform a b g = (a + (b - a) * (real (g 0 mod 2 ^ 53) / 2 ^ 53), \<lambda>i. g (Suc i))"
  by (simp add: random_uniform_def random_random_eq)

lemma random_randint_range:
  "a \<le> b \<Longrightarrow> a \<le> fst (random_randint a b g) \<and> fst (random_randint a b g) \<le> b"
proof -
  assume "a \<le> b"
  then have "0 < nat (b - a + 1)" by simp
  then have "g 0 mod nat (b - a + 1) < nat (b - a + 1)" by (rule mod_less_divisor)
  then show ?thesis by (simp add: random_randint_eq)
qed

lemma random_choice_mem: "seq \<noteq> [] \<Longrightarrow> fst (random_choice seq g) \<in> set seq"
  by (simp add: random_choice_eq)


lemma round_half_even_near:
  assumes "of_int k - 1 / 2 < y" "y < of_int k + 1 / 2"
  shows "round_half_even y = k"
proof (cases "of_int k \<le> y")
  case True
  with assms have "\<lfloor>y\<rfloor> = k" by (intro floor_unique) simp_all
  with assms show ?thesis by (simp add: round_half_even_def Let_def)
next
  case False
  with assms have "\<lfloor>y\<rfloor> = k - 1" by (intro floor_unique) simp_all
  with assms show ?thesis by (simp add: round_half_even_def Let_def)
qed

lemma round_half_even_range:
  assumes "0 \<le> y" "y < 100"
  shows "0 \<le> round_half_even y \<and> round_half_even y \<le> 100"
proof -
  have "0 \<le> \<lfloor>y\<rfloor>" using assms by simp
  moreover have "\<lfloor>y\<rfloor> < 100" using assms by (simp add: floor_less_iff)
  ultimately show ?thesis by (simp add: round_half_even_def Let_def)
qed

text \<open>Ties go to the even hundredth, and a value from 0.995 up goes to 1.\<close>

lemma py_round_ties:
  "py_round (1 / 8) 2 = 12 / 100" "py_round (3 / 8) 2 = 38 / 100"
  "py_round (999 / 1000) 2 = 1"
  by (simp_all add: py_round_def round_half_even_def Let_def)

lemma format_examples:
  "''L'' @ format_03d 2 = ''L002''" "''V'' @ format_03d 12 = ''V012''"
  "''L'' @ format_03d 1000 = ''L1000''" "format_02d 7 @ '':00'' = ''07:00''"
  "format_02d 23 @ '':00'' = ''23:00''"
  by (simp_all add: format_03d_def format_02d_def zero_pad_def decimal.simps numeral_2_eq_2)

section \<open>The sampler stays inside the disc\<close>


lemma degrees_radians: "degrees (radians x) = x"
  by (simp add: radians_def degrees_def)

lemma radians_quarter_turn:
  assumes "- 90 \<le> lat" "lat \<le> 90"
  shows "- (pi / 2) \<le> radians lat \<and> radians lat \<le> pi / 2"
proof -
  from assms have "(- 90 / 180) * pi \<le> (lat / 180) * pi" "(lat / 180) * pi \<le> (90 / 180) * pi"
    by (intro mult_right_mono; simp)+
  then show ?thesis by (simp add: radians_def)
qed


lemma atan2_zero: "0 \<le> x \<Longrightarrow> atan2 0 x = 0"
  by (simp add: atan2_def)


lemma sampler_sine_bound:
  fixes s c st ct sb cb :: real
  assumes "s\<^sup>2 + c\<^sup>2 = 1" "st\<^sup>2 + ct\<^sup>2 = 1" "sb\<^sup>2 + cb\<^sup>2 = 1"
  shows "(s * ct + c * st * cb)\<^sup>2 \<le> 1"
proof -
  have "1 - (s * ct + c * st * cb)\<^sup>2 = (c * ct - s * st * cb)\<^sup>2 + (st * sb)\<^sup>2"
    using assms by algebra
  moreover have "0 \<le> (c * ct - s * st * cb)\<^sup>2 + (st * sb)\<^sup>2" by simp
  ultimately show ?thesis by linarith
qed




text \<open>
  \<open>math.acos\<close> and \<open>math.asin\<close> raise outside \<open>[-1, 1]\<close>. For a draw \<open>u\<close> of \<open>[0, 1]\<close>
  the sampler calls both inside their domain, whatever the centre, the radius, the
  angular distance and the bearing are.
\<close>

lemma sampler_arguments_in_domain:
  fixes ang u lat0 theta bearing :: real
  assumes "0 \<le> u" "u \<le> 1"
  shows "- 1 \<le> 1 - u * (1 - cos ang) \<and> 1 - u * (1 - cos ang) \<le> 1 \<and>
         - 1 \<le> sin lat0 * cos theta + cos lat0 * sin theta * cos bearing \<and>
         sin lat0 * cos theta + cos lat0 * sin theta * cos bearing \<le> 1"
proof -
  have "0 \<le> (1 - u) * (1 - cos ang)" using assms by (intro mult_nonneg_nonneg) simp_all
  then have "cos ang \<le> 1 - u * (1 - cos ang)" by (simp add: algebra_simps)
  then have lo: "- 1 \<le> 1 - u * (1 - cos ang)" using cos_ge_minus_one [of ang] by linarith
  have "0 \<le> u * (1 - cos ang)" using assms by (intro mult_nonneg_nonneg) simp_all
  then have hi: "1 - u * (1 - cos ang) \<le> 1" by simp
  have t: "(sin lat0)\<^sup>2 + (cos lat0)\<^sup>2 = 1" "(sin theta)\<^sup>2 + (cos theta)\<^sup>2 = 1"
    "(sin bearing)\<^sup>2 + (cos bearing)\<^sup>2 = 1" by simp_all
  from sampler_sine_bound [OF t]
  have "\<bar>sin lat0 * cos theta + cos lat0 * sin theta * cos bearing\<bar> \<le> 1"
    by (simp add: abs_square_le_1)
  with lo hi show ?thesis by (simp add: abs_le_iff)
qed

lemma sampler_draws:
  "fst (random_point_within_radius lat lon r g) =
     point_from_draws lat lon r (fst (random_random g))
       (fst (random_uniform 0 (2 * pi) (snd (random_random g))))"
  by (simp add: random_point_within_radius_def split_def Let_def)

lemma point_radius_zero:
  "point_from_draws lat lon 0 u bearing = (degrees (arcsin (sin (radians lat))), lon)"
proof -
  have "0 \<le> 1 - sin (radians lat) * sin (radians lat)"
    using sin_squared_eq [of "radians lat"] zero_le_power2 [of "cos (radians lat)"]
    by (simp add: power2_eq_square)
  then show ?thesis
    by (simp add: point_from_draws_def Let_def atan2_zero degrees_radians)
qed

lemma arcsin_sin_100: "arcsin (sin (radians 100)) = radians 80"
proof -
  have "sin (radians 100) = sin (pi - radians 80)"
    by (simp add: radians_def field_simps)
  also have "\<dots> = sin (radians 80)" by (rule sin_pi_minus)
  finally have "arcsin (sin (radians 100)) = arcsin (sin (radians 80))" by simp
  also have "\<dots> = radians 80"
  proof (rule arcsin_sin)
    show "- (pi / 2) \<le> radians 80" using pi_gt_zero unfolding radians_def by linarith
    show "radians 80 \<le> pi / 2" using pi_gt_zero unfolding radians_def by linarith
  qed
  finally show ?thesis .
qed




text \<open>
  In the arithmetic of the real numbers, the sampler with radius 0 returns the centre
  itself when the centre's latitude lies in \<open>[-90, 90]\<close> degrees, and folds a latitude
  outside that range back into it.
\<close>

lemma radius_zero_exact_arithmetic:
  assumes "- 90 \<le> lat_center" "lat_center \<le> 90"
  shows "point_from_draws lat_center lon_center 0 u bearing = (lat_center, lon_center)"
proof -
  from radians_quarter_turn [OF assms]
  have "arcsin (sin (radians lat_center)) = radians lat_center" by (intro arcsin_sin) simp_all
  then show ?thesis by (simp add: point_radius_zero degrees_radians)
qed

lemma radius_zero_latitude_100:
  "fst (random_point_within_radius 100 20 0 (\<lambda>i. 0)) = (80, 20)"
  by (simp add: sampler_draws point_radius_zero arcsin_sin_100 degrees_radians)

text \<open>
  Claim C10. For every centre, every radius \<open>r\<close> and every pair of draws, the sampler
  computes the same point from \<open>- r\<close> as from \<open>r\<close>, and leaves the random source in the
  same state.
\<close>

theorem negative_radius_same_point:
  "point_from_draws lat lon (- r) u bearing = point_from_draws lat lon r u bearing \<and>
   random_point_within_radius lat lon (- r) g = random_point_within_radius lat lon r g"
  by (simp add: random_point_within_radius_def point_from_draws_def)

section \<open>Rounding to double precision\<close>


















section \<open>The sampler at radius 0 in double precision\<close>













section \<open>The rows of the location table\<close>

text \<open>One attribute bundle, on the tape whose every draw is 7.\<close>

lemma customer_fields_example:
  "fst (make_customer_fields 739000 (\<lambda>i. 7)) =
     \<lparr>Demand_unit = 8, Product_Type = ''Herbs'', Temp_Min = 5, Temp_Max = 10,
      Ripeness_Date = 739003, Expiration_Date = 739006,
      Packaging_Type = ''Box'', Contamination_Group = ''B'', Handling_Notes = ''Keep Upright'',
      Urgency_Score = 0, Time_Window_Start = ''12:00'', Time_Window_End = ''17:00''\<rparr>"
  by (simp add: make_customer_fields_def split_def Let_def random_randint_eq random_choice_eq
      random_random_eq PRODUCT_TYPES_def PACKAGING_TYPES_def CONTAMINATION_GROUPS_def
      HANDLING_NOTES_def py_round_def round_half_even_def)

lemma make_customer_fields_dates:
  "0 \<le> Ripeness_Date (fst (make_customer_fields today g)) - today \<and>
   Ripeness_Date (fst (make_customer_fields today g)) - today \<le> 3 \<and>
   2 \<le> Expiration_Date (fst (make_customer_fields today g)) -
         Ripeness_Date (fst (make_customer_fields today g)) \<and>
   Expiration_Date (fst (make_customer_fields today g)) -
     Ripeness_Date (fst (make_customer_fields today g)) \<le> 7"
  apply (simp add: make_customer_fields_def split_def Let_def)
  using random_randint_range [of 0 3] random_randint_range [of 2 7]
  apply simp
  done

lemma location_row_dates:
  "dates_consistent today (location_row loc_id lat lon flag (fst (make_customer_fields today g)))"
  using make_customer_fields_dates [of today g]
  by (simp add: dates_consistent_def location_row_def)

lemma sampled_row_dates:
  "dates_consistent (clock (i - 1)) (fst (sampled_row clock lat lon r i g))"
  by (simp add: sampled_row_def split_def Let_def location_row_dates)

lemma length_sampled_rows:
  "length (fst (sampled_rows clock lat lon r k i g)) = k"
  by (induction k arbitrary: i g) (simp_all add: split_def Let_def)

lemma sampled_rows_dates:
  "j < k \<Longrightarrow> 0 < i \<Longrightarrow>
   dates_consistent (clock (i - 1 + j)) (fst (sampled_rows clock lat lon r k i g) ! j)"
proof (induction k arbitrary: i j g)
  case 0
  then show ?case by simp
next
  case (Suc k)
  show ?case
  proof (cases j)
    case 0
    then show ?thesis using sampled_row_dates [of clock i lat lon r g]
      by (simp add: split_def Let_def)
  next
    case (Suc j')
    with Suc.prems have "j' < k" by simp
    from Suc.IH [OF this, of "Suc i"] Suc Suc.prems show ?thesis
      by (simp add: split_def Let_def)
  qed
qed

lemma length_locations:
  "length (fst (generate_synthetic_locations clock n lat lon r g)) = Suc (nat (n - 1))"
  by (simp add: generate_synthetic_locations_def split_def Let_def length_sampled_rows)

lemma locations_first:
  "fst (generate_synthetic_locations clock n lat lon r g) ! 0 =
     location_row ''L001'' (py_round lat 6) (py_round lon 6) ''TRUE''
       (fst (make_customer_fields (clock 0) g))"
  by (simp add: generate_synthetic_locations_def split_def Let_def)

lemma locations_single:
  "generate_synthetic_locations clock 1 lat lon r g =
     ([location_row ''L001'' (py_round lat 6) (py_round lon 6) ''TRUE''
         (fst (make_customer_fields (clock 0) g))],
      snd (make_customer_fields (clock 0) g))"
  by (simp add: generate_synthetic_locations_def split_def Let_def)

lemma locations_have_depot:
  "\<exists>row \<in> set (fst (generate_synthetic_locations clock n lat lon r g)). Depot_Flag row = ''TRUE''"
proof -
  have "0 < length (fst (generate_synthetic_locations clock n lat lon r g))"
    by (simp add: length_locations)
  then have "fst (generate_synthetic_locations clock n lat lon r g) ! 0
      \<in> set (fst (generate_synthetic_locations clock n lat lon r g))"
    by (rule nth_mem)
  moreover have "Depot_Flag (fst (generate_synthetic_locations clock n lat lon r g) ! 0) = ''TRUE''"
    by (simp add: locations_first location_row_def)
  ultimately show ?thesis by blast
qed

text \<open>The attribute bundle takes nine draws.\<close>

lemma make_customer_fields_draws:
  "snd (make_customer_fields today g) = (\<lambda>i. g (i + 9))"
proof -
  have nine: "\<And>i::nat. i + 9 = Suc (Suc (Suc (Suc (Suc (Suc (Suc (Suc (Suc i))))))))" by simp
  show ?thesis unfolding nine
    by (simp add: make_customer_fields_def split_def Let_def random_choice_eq random_randint_eq
      random_random_eq)
qed

lemma locations_dates:
  assumes "j < length (fst (generate_synthetic_locations clock n lat lon r g))"
  shows "dates_consistent (clock j) (fst (generate_synthetic_locations clock n lat lon r g) ! j)"
proof (cases j)
  case 0
  then show ?thesis by (simp add: locations_first location_row_dates)
next
  case (Suc j')
  with assms have "j' < nat (n - 1)" by (simp add: length_locations)
  from sampled_rows_dates [OF this, of 2 clock] Suc show ?thesis
    by (simp add: generate_synthetic_locations_def split_def Let_def)
qed

text \<open>
  Claim C6. In the table of a run, the row of index \<open>j\<close> is generated on the date
  \<open>clock j\<close> that its call of the attribute generator reads: its ripeness date is that
  date plus 0 to 3 days, and its expiration date is its ripeness date plus 2 to 7 days.
\<close>

theorem ripeness_and_expiration_dates:
  assumes "j < length (fst (generate_synthetic_locations clock num_records lat lon r g))"
  shows "0 \<le> Ripeness_Date (fst (generate_synthetic_locations clock num_records lat lon r g) ! j) - clock j \<and>
    Ripeness_Date (fst (generate_synthetic_locations clock num_records lat lon r g) ! j) - clock j \<le> 3 \<and>
    2 \<le> Expiration_Date (fst (generate_synthetic_locations clock num_records lat lon r g) ! j) -
          Ripeness_Date (fst (generate_synthetic_locations clock num_records lat lon r g) ! j) \<and>
    Expiration_Date (fst (generate_synthetic_locations clock num_records lat lon r g) ! j) -
      Ripeness_Date (fst (generate_synthetic_locations clock num_records lat lon r g) ! j) \<le> 7"
  using locations_dates [OF assms] by (simp add: dates_consistent_def)

theorem ripeness_and_expiration_dates_witness:
  "(1::nat) < length (fst (generate_synthetic_locations (\<lambda>j. 739000 + int j) 2 40 (- 83) 25 (\<lambda>i. i))) \<and>
   0 \<le> Ripeness_Date (fst (generate_synthetic_locations (\<lambda>j. 739000 + int j) 2 40 (- 83) 25 (\<lambda>i. i)) ! 1) - 739001 \<and>
   Ripeness_Date (fst (generate_synthetic_locations (\<lambda>j. 739000 + int j) 2 40 (- 83) 25 (\<lambda>i. i)) ! 1) - 739001 \<le> 3 \<and>
   2 \<le> Expiration_Date (fst (generate_synthetic_locations (\<lambda>j. 739000 + int j) 2 40 (- 83) 25 (\<lambda>i. i)) ! 1) -
         Ripeness_Date (fst (generate_synthetic_locations (\<lambda>j. 739000 + int j) 2 40 (- 83) 25 (\<lambda>i. i)) ! 1) \<and>
   Expiration_Date (fst (generate_synthetic_locations (\<lambda>j. 739000 + int j) 2 40 (- 83) 25 (\<lambda>i. i)) ! 1) -
     Ripeness_Date (fst (generate_synthetic_locations (\<lambda>j. 739000 + int j) 2 40 (- 83) 25 (\<lambda>i. i)) ! 1) \<le> 7"
proof -
  have h: "(1::nat) < length (fst (generate_synthetic_locations (\<lambda>j. 739000 + int j) 2 40 (- 83) 25 (\<lambda>i. i)))"
    by (simp add: length_locations)
  from ripeness_and_expiration_dates [OF h] h show ?thesis by simp
qed

text \<open>
  Claim C4. For every \<open>num_records \<ge> 1\<close> and every centre, the table has exactly
  \<open>num_records\<close> rows; its first row has the identifier L001, the centre's coordinates
  rounded to six decimals and the depot flag TRUE, so the table has a depot. When
  \<open>num_records = 1\<close> that row is the whole table, and the random source has given the
  nine draws of the depot's attribute bundle and no more: the sampler has drawn nothing.
\<close>

theorem locations_table_shape:
  assumes "1 \<le> num_records"
  shows "length (fst (generate_synthetic_locations clock num_records lat lon r g)) = nat num_records \<and>
    Location_ID (fst (generate_synthetic_locations clock num_records lat lon r g) ! 0) = ''L001'' \<and>
    Latitude (fst (generate_synthetic_locations clock num_records lat lon r g) ! 0) = py_round lat 6 \<and>
    Longitude (fst (generate_synthetic_locations clock num_records lat lon r g) ! 0) = py_round lon 6 \<and>
    Depot_Flag (fst (generate_synthetic_locations clock num_records lat lon r g) ! 0) = ''TRUE'' \<and>
    (\<exists>row \<in> set (fst (generate_synthetic_locations clock num_records lat lon r g)).
       Depot_Flag row = ''TRUE'') \<and>
    (num_records = 1 \<longrightarrow>
       generate_synthetic_locations clock num_records lat lon r g =
         ([location_row ''L001'' (py_round lat 6) (py_round lon 6) ''TRUE''
            (fst (make_customer_fields (clock 0) g))],
          \<lambda>i. g (i + 9)))"
  using assms locations_have_depot [of clock num_records lat lon r g]
  by (simp add: length_locations locations_first locations_single location_row_def
      make_customer_fields_draws)

lemma py_round_example: "py_round (401234567 / 10000000) 6 = 40123457 / 1000000"
proof -
  have "round_half_even (401234567 / 10) = 40123457"
    by (rule round_half_even_near) simp_all
  then show ?thesis by (simp add: py_round_def)
qed

theorem locations_table_shape_witness:
  "(1::int) \<le> 3 \<and>
   length (fst (generate_synthetic_locations (\<lambda>j. 739000) 3 (401234567 / 10000000) (- 83) 25 (\<lambda>i. i))) = 3 \<and>
   Location_ID (fst (generate_synthetic_locations (\<lambda>j. 739000) 3 (401234567 / 10000000) (- 83) 25 (\<lambda>i. i)) ! 0) = ''L001'' \<and>
   Latitude (fst (generate_synthetic_locations (\<lambda>j. 739000) 3 (401234567 / 10000000) (- 83) 25 (\<lambda>i. i)) ! 0) = 40123457 / 1000000 \<and>
   Depot_Flag (fst (generate_synthetic_locations (\<lambda>j. 739000) 3 (401234567 / 10000000) (- 83) 25 (\<lambda>i. i)) ! 0) = ''TRUE'' \<and>
   (1::int) \<le> 1 \<and>
   length (fst (generate_synthetic_locations (\<lambda>j. 739000) 1 (401234567 / 10000000) (- 83) 25 (\<lambda>i. i))) = 1 \<and>
   snd (generate_synthetic_locations (\<lambda>j. 739000) 1 (401234567 / 10000000) (- 83) 25 (\<lambda>i. i)) =
     (\<lambda>i. i + 9)"
proof -
  have h3: "(1::int) \<le> 3" and h1: "(1::int) \<le> 1" by simp_all
  from locations_table_shape [OF h3, of "\<lambda>j. 739000" "401234567 / 10000000" "- 83" 25 "\<lambda>i. i"]
    locations_table_shape [OF h1, of "\<lambda>j. 739000" "401234567 / 10000000" "- 83" 25 "\<lambda>i. i"]
  show ?thesis by (simp add: py_round_example)
qed

section \<open>The product \<open>0.30 * total_locations\<close> in double precision\<close>

lemma bit_length_le: "n < 2 ^ k \<Longrightarrow> bit_length n \<le> k"
proof (induction n arbitrary: k rule: bit_length.induct)
  case (1 n)
  show ?case
  proof (cases "n = 0")
    case True
    then show ?thesis by (simp add: bit_length.simps)
  next
    case False
    with "1.prems" obtain k' where k: "k = Suc k'"
      by (cases k) auto
    with "1.prems" have "n div 2 < 2 ^ k'" by simp
    from "1.IH" [OF False this] False k show ?thesis
      by (simp add: bit_length.simps [of n])
  qed
qed

lemma round_to_double_exact: "n < 2 ^ 53 \<Longrightarrow> round_to_double n = n"
  using bit_length_le [of n 53] by (simp add: round_to_double_def)

text \<open>
  Rounding to the nearest double never crosses a double: a value between two numbers
  that are multiples of its own unit in the last place is rounded to a number between
  them.
\<close>

lemma round_to_double_between:
  assumes lo: "lo \<le> p" and hi: "p \<le> hi"
    and dlo: "2 ^ (bit_length p - 53) dvd lo" and dhi: "2 ^ (bit_length p - 53) dvd hi"
  shows "lo \<le> round_to_double p \<and> round_to_double p \<le> hi"
proof (cases "bit_length p \<le> 53")
  case True
  with lo hi show ?thesis by (simp add: round_to_double_def)
next
  case False
  define s where "s = bit_length p - 53"
  define q where "q = p div 2 ^ s"
  define r where "r = p mod 2 ^ s"
  have p: "p = q * 2 ^ s + r" unfolding q_def r_def by (rule div_mult_mod_eq [symmetric])
  from dlo obtain a where a: "lo = a * 2 ^ s" unfolding s_def by (auto simp: dvd_def mult.commute)
  from dhi obtain b where b: "hi = b * 2 ^ s" unfolding s_def by (auto simp: dvd_def mult.commute)
  have "a \<le> q"
  proof -
    from lo a have "a * 2 ^ s div 2 ^ s \<le> p div 2 ^ s" by (intro div_le_mono) simp
    then show ?thesis by (simp add: q_def)
  qed
  then have low: "lo \<le> q * 2 ^ s" by (simp add: a)
  have up: "(q + 1) * 2 ^ s \<le> hi" if "0 < r"
  proof -
    from that p hi b have "q * 2 ^ s < b * 2 ^ s" by linarith
    then have "q < b" by simp
    then have "q + 1 \<le> b" by simp
    then show ?thesis unfolding b by (intro mult_le_mono1)
  qed
  have up0: "q * 2 ^ s \<le> hi" using p hi by simp
  have res: "round_to_double p =
      (if 2 * r < 2 ^ s \<or> (2 * r = 2 ^ s \<and> even q) then q else q + 1) * 2 ^ s"
    using False by (simp add: round_to_double_def Let_def s_def q_def r_def)
  show ?thesis
  proof (cases "2 * r < 2 ^ s \<or> (2 * r = 2 ^ s \<and> even q)")
    case True
    with res low up0 show ?thesis by simp
  next
    case False
    then have "0 < r" by (cases "r = 0") auto
    from up [OF this] False res low show ?thesis by simp
  qed
qed

text \<open>
  Below \<open>2^50\<close> rows the double product lies in the same unit interval as the exact
  three tenths: above \<open>K - 1 + 1/16\<close> and at most \<open>K\<close>, for \<open>K\<close> the exact ceiling.
\<close>

lemma mul_0_30_bounds:
  assumes n: "0 < n" "n < 2 ^ 50"
  shows "real ((3 * n + 9) div 10) - 1 < mul_0_30 n \<and> mul_0_30 n \<le> real ((3 * n + 9) div 10)"
proof -
  define K where "K = (3 * n + 9) div 10"
  define P where "P = 5404319552844595 * n"
  have K1: "10 * K \<le> 3 * n + 9" and K2: "3 * n \<le> 10 * K" and K0: "1 \<le> K"
    using n by (simp_all add: K_def)
  have nb: "n < 1125899906842624" using n by simp
  have lo: "(K - 1) * 18014398509481984 + 1125899906842624 \<le> P"
    using K1 K0 nb by (simp add: P_def)
  have hi: "P \<le> K * 18014398509481984"
    using K2 by (simp add: P_def)
  have "P < 2 ^ 103" using nb by (simp add: P_def)
  then have "bit_length P \<le> 103" by (rule bit_length_le)
  then have "bit_length P - 53 \<le> 50" by simp
  then have d: "(2::nat) ^ (bit_length P - 53) dvd 2 ^ 50" by (rule le_imp_power_dvd)
  have e: "(18014398509481984::nat) = 16 * 2 ^ 50" "(1125899906842624::nat) = 2 ^ 50"
    by simp_all
  have "(2::nat) ^ 50 dvd (K - 1) * 18014398509481984 + 1125899906842624"
    unfolding e by (intro dvd_add dvd_mult dvd_refl)
  with d have dlo: "2 ^ (bit_length P - 53) dvd (K - 1) * 18014398509481984 + 1125899906842624"
    by (rule dvd_trans)
  have "(2::nat) ^ 50 dvd K * 18014398509481984"
    unfolding e by (intro dvd_mult dvd_refl)
  with d have dhi: "2 ^ (bit_length P - 53) dvd K * 18014398509481984"
    by (rule dvd_trans)
  from round_to_double_between [OF lo hi dlo dhi]
  have b: "(K - 1) * 18014398509481984 + 1125899906842624 \<le> round_to_double P"
    "round_to_double P \<le> K * 18014398509481984" by simp_all
  have m: "mul_0_30 n = real (round_to_double P) / 18014398509481984"
    using n by (simp add: mul_0_30_def round_to_double_exact P_def)
  from b(1) have "real ((K - 1) * 18014398509481984 + 1125899906842624) \<le> real (round_to_double P)"
    by (rule iffD2 [OF of_nat_le_iff])
  then have 1: "real K - 1 < mul_0_30 n" using K0 by (simp add: m field_simps)
  from b(2) have "real (round_to_double P) \<le> real (K * 18014398509481984)"
    by (rule iffD2 [OF of_nat_le_iff])
  then have 2: "mul_0_30 n \<le> real K" by (simp add: m field_simps)
  from 1 2 show ?thesis by (simp add: K_def)
qed

lemma ceiling_three_tenths: "\<lceil>3 / 10 * real n\<rceil> = int ((3 * n + 9) div 10)"
proof (rule ceiling_unique)
  have "10 * ((3 * n + 9) div 10) \<le> 3 * n + 9" by simp
  then have "real (10 * ((3 * n + 9) div 10)) \<le> real (3 * n + 9)"
    by (rule iffD2 [OF of_nat_le_iff])
  then show "real_of_int (int ((3 * n + 9) div 10)) - 1 < 3 / 10 * real n"
    by simp
  have "3 * n + 9 < 10 * ((3 * n + 9) div 10) + 10"
    using dividend_less_times_div [of 10 "3 * n + 9"] by simp
  then have "3 * n \<le> 10 * ((3 * n + 9) div 10)" by simp
  then have "real (3 * n) \<le> real (10 * ((3 * n + 9) div 10))"
    by (rule iffD2 [OF of_nat_le_iff])
  then show "3 / 10 * real n \<le> real_of_int (int ((3 * n + 9) div 10))"
    by simp
qed

lemma fleet_size_max: "fleet_size n = max 1 \<lceil>mul_0_30 n\<rceil>"
  by (simp add: fleet_size_def Let_def max_def)

lemma fleet_size_exact:
  assumes "n < 2 ^ 50"
  shows "fleet_size n = max 1 \<lceil>3 / 10 * real n\<rceil>"
proof (cases "n = 0")
  case True
  have "bit_length 0 = 0" by (simp add: bit_length.simps)
  then have "round_to_double 0 = 0" by (simp add: round_to_double_def)
  then have "mul_0_30 0 = 0" by (simp add: mul_0_30_def)
  with True show ?thesis by (simp add: fleet_size_def)
next
  case False
  then have "0 < n" by simp
  from mul_0_30_bounds [OF this assms]
  have "\<lceil>mul_0_30 n\<rceil> = int ((3 * n + 9) div 10)"
    by (intro ceiling_unique) simp_all
  moreover have "1 \<le> (3 * n + 9) div 10" using False by simp
  ultimately show ?thesis
    using ceiling_three_tenths [of n] by (simp add: fleet_size_def Let_def)
qed

text \<open>
  The bound is one of double precision and not of the proof. On a table of
  7505999378950827 rows, more than any memory holds, the double product is \<open>2^51\<close>
  where the exact product has the ceiling \<open>2^51 + 1\<close>.
\<close>

lemma fleet_size_large_table: "fleet_size 7505999378950827 = 2251799813685248"
proof -
  have a: "bit_length 7505999378950827 = 53" by (simp add: bit_length.simps)
  have b: "round_to_double 7505999378950827 = 7505999378950827"
    by (simp add: round_to_double_def a)
  have c: "bit_length 40564819207303341148134477730065 = 106" by (simp add: bit_length.simps)
  have d: "round_to_double 40564819207303341148134477730065 = 4503599627370496 * 2 ^ 53"
    unfolding round_to_double_def c by (simp add: Let_def)
  show ?thesis by (simp add: fleet_size_def mul_0_30_def b d)
qed

lemma exact_ceiling_large_table: "\<lceil>3 / 10 * real 7505999378950827\<rceil> = 2251799813685249"
  by (simp add: ceiling_three_tenths)

section \<open>The rows of the vehicle table\<close>

text \<open>One vehicle row, on the tape whose every draw is 7.\<close>

lemma vehicle_row_example:
  "fst (vehicle_row [''L007''] 1 (\<lambda>i. 7)) =
     \<lparr>Vehicle_ID = ''V001'', Capacity_boxes = 107, Vehicle_Temp_Min = 0, Vehicle_Temp_Max = 8,
      Start_Location = ''L007'', Available_From = ''07:00'', Available_Until = ''14:00''\<rparr>"
proof -
  have d: "format_03d (Suc 0) = ''001''" "format_02d 7 = ''07''" "format_02d 14 = ''14''"
    by (simp_all add: format_03d_def format_02d_def zero_pad_def decimal.simps numeral_2_eq_2)
  show ?thesis
    by (simp add: vehicle_row_def split_def Let_def random_randint_eq random_choice_eq
      MIN_CAPACITY_def MAX_CAPACITY_def HOURS_IN_DAY_def d)
qed

lemma length_vehicle_rows: "length (fst (vehicle_rows ids k i g)) = k"
  by (induction k arbitrary: i g) (simp_all add: split_def Let_def)

lemma vehicle_row_start: "ids \<noteq> [] \<Longrightarrow> Start_Location (fst (vehicle_row ids i g)) \<in> set ids"
  by (simp add: vehicle_row_def split_def Let_def random_choice_mem)

lemma vehicle_rows_start:
  "ids \<noteq> [] \<Longrightarrow> v \<in> set (fst (vehicle_rows ids k i g)) \<Longrightarrow> Start_Location v \<in> set ids"
  by (induction k arbitrary: i g) (auto simp add: split_def Let_def vehicle_row_start)

text \<open>
  The start hour lies in \<open>[0, 23]\<close>, so the range \<open>[start_hour, 23]\<close> of the second draw
  is never empty, and the end hour is not before the start hour.
\<close>

lemma availability_hours:
  "0 \<le> fst (random_randint 0 (HOURS_IN_DAY - 1) g) \<and>
   fst (random_randint 0 (HOURS_IN_DAY - 1) g) \<le> HOURS_IN_DAY - 1 \<and>
   fst (random_randint 0 (HOURS_IN_DAY - 1) g)
     \<le> fst (random_randint (fst (random_randint 0 (HOURS_IN_DAY - 1) g)) (HOURS_IN_DAY - 1) g') \<and>
   fst (random_randint (fst (random_randint 0 (HOURS_IN_DAY - 1) g)) (HOURS_IN_DAY - 1) g')
     \<le> HOURS_IN_DAY - 1"
proof -
  have 1: "0 \<le> fst (random_randint 0 (HOURS_IN_DAY - 1) g) \<and>
      fst (random_randint 0 (HOURS_IN_DAY - 1) g) \<le> HOURS_IN_DAY - 1"
    by (rule random_randint_range) (simp add: HOURS_IN_DAY_def)
  then have "fst (random_randint 0 (HOURS_IN_DAY - 1) g) \<le> HOURS_IN_DAY - 1" by simp
  from random_randint_range [OF this, of g'] 1 show ?thesis by simp
qed

lemma set_depot_ids_of:
  "set (depot_ids_of locs) = {Location_ID r | r. r \<in> set locs \<and> Depot_Flag r = ''TRUE''}"
  by (auto simp add: depot_ids_of_def)

lemma depot_ids_of_empty:
  "depot_ids_of locs = [] \<longleftrightarrow> (\<forall>r \<in> set locs. Depot_Flag r \<noteq> ''TRUE'')"
  by (simp add: depot_ids_of_def filter_empty_conv)

lemma vehicles_accepted:
  assumes "depot_ids_of locs \<noteq> []"
  shows "generate_synthetic_vehicles locs g =
     (Inr (fst (vehicle_rows (depot_ids_of locs) (nat (fleet_size (length locs))) 1 g)),
      snd (vehicle_rows (depot_ids_of locs) (nat (fleet_size (length locs))) 1 g))"
  using assms by (simp add: generate_synthetic_vehicles_def Let_def split_def)

lemma vehicles_refused:
  assumes "depot_ids_of locs = []"
  shows "generate_synthetic_vehicles locs g =
     (Inl (ValueError ''No depot found in locations data; cannot generate vehicles.''), g)"
  using assms by (simp add: generate_synthetic_vehicles_def Let_def)

text \<open>
  Claim C2. For every location table with at least one depot-flagged row, the vehicle
  builder returns a table, and the start location of each of its rows is the identifier
  of a row of the input whose depot flag is TRUE.
\<close>

theorem start_location_is_depot:
  assumes "\<exists>r \<in> set locs. Depot_Flag r = ''TRUE''"
  shows "\<exists>vs g'. generate_synthetic_vehicles locs g = (Inr vs, g') \<and>
           (\<forall>v \<in> set vs. \<exists>r \<in> set locs. Depot_Flag r = ''TRUE'' \<and> Start_Location v = Location_ID r)"
proof -
  from assms have ne: "depot_ids_of locs \<noteq> []" by (auto simp add: depot_ids_of_empty)
  define vs where "vs = fst (vehicle_rows (depot_ids_of locs) (nat (fleet_size (length locs))) 1 g)"
  have "\<forall>v \<in> set vs. Start_Location v \<in> set (depot_ids_of locs)"
    using vehicle_rows_start [OF ne] by (auto simp add: vs_def)
  then have "\<forall>v \<in> set vs. \<exists>r \<in> set locs. Depot_Flag r = ''TRUE'' \<and> Start_Location v = Location_ID r"
    by (auto simp add: set_depot_ids_of)
  with vehicles_accepted [OF ne, of g] show ?thesis unfolding vs_def by blast
qed

theorem start_location_is_depot_witness:
  "(\<exists>r \<in> set (fst (generate_synthetic_locations (\<lambda>j. 739000) 1 40 (- 83) 25 (\<lambda>i. i))). Depot_Flag r = ''TRUE'') \<and>
   (\<exists>vs g'. generate_synthetic_vehicles (fst (generate_synthetic_locations (\<lambda>j. 739000) 1 40 (- 83) 25 (\<lambda>i. i))) (\<lambda>i. i)
        = (Inr vs, g') \<and> length vs = 1 \<and> (\<forall>v \<in> set vs. Start_Location v = ''L001''))"
proof -
  have h: "\<exists>r \<in> set (fst (generate_synthetic_locations (\<lambda>j. 739000) 1 40 (- 83) 25 (\<lambda>i. i))). Depot_Flag r = ''TRUE''"
    by (rule locations_have_depot)
  have "depot_ids_of (fst (generate_synthetic_locations (\<lambda>j. 739000) 1 40 (- 83) 25 (\<lambda>i. i))) \<noteq> []"
    by (simp add: locations_single location_row_def depot_ids_of_def)
  from vehicles_accepted [OF this, of "\<lambda>i. i"]
  have l: "generate_synthetic_vehicles (fst (generate_synthetic_locations (\<lambda>j. 739000) 1 40 (- 83) 25 (\<lambda>i. i))) (\<lambda>i. i)
      = (Inr vs, g') \<Longrightarrow> length vs = 1" for vs g'
    using fleet_size_exact [of 1] ceiling_three_tenths [of 1]
    by (auto simp add: length_locations split_def Let_def)
  from start_location_is_depot [OF h, of "\<lambda>i. i"] h l show ?thesis
    by (simp add: locations_single location_row_def) blast
qed

text \<open>
  Claim C3. For every location table with a depot-flagged row, the vehicle builder
  returns \<open>max(1, ceil(0.30 * N))\<close> rows, \<open>N\<close> the number of rows of the input: with the
  product taken in double precision as the code takes it, for every \<open>N\<close>, and with the
  exact product three tenths of \<open>N\<close> for every table of fewer than \<open>2^50\<close> rows.
\<close>

theorem fleet_size_of_table:
  assumes "\<exists>r \<in> set locs. Depot_Flag r = ''TRUE''"
  shows "\<exists>vs g'. generate_synthetic_vehicles locs g = (Inr vs, g') \<and>
           int (length vs) = max 1 \<lceil>mul_0_30 (length locs)\<rceil> \<and>
           (length locs < 2 ^ 50 \<longrightarrow> int (length vs) = max 1 \<lceil>3 / 10 * real (length locs)\<rceil>)"
proof -
  from assms have ne: "depot_ids_of locs \<noteq> []" by (auto simp add: depot_ids_of_empty)
  define vs where "vs = fst (vehicle_rows (depot_ids_of locs) (nat (fleet_size (length locs))) 1 g)"
  have "1 \<le> fleet_size (length locs)" by (simp add: fleet_size_max)
  then have len: "int (length vs) = fleet_size (length locs)"
    by (simp add: vs_def length_vehicle_rows)
  then have "int (length vs) = max 1 \<lceil>mul_0_30 (length locs)\<rceil>"
    by (simp only: fleet_size_max)
  moreover have "length locs < 2 ^ 50 \<longrightarrow> int (length vs) = max 1 \<lceil>3 / 10 * real (length locs)\<rceil>"
  proof
    assume "length locs < 2 ^ 50"
    from fleet_size_exact [OF this] len show "int (length vs) = max 1 \<lceil>3 / 10 * real (length locs)\<rceil>"
      by simp
  qed
  ultimately show ?thesis using vehicles_accepted [OF ne, of g] unfolding vs_def by blast
qed

theorem fleet_size_of_table_witness:
  "(\<exists>r \<in> set (fst (generate_synthetic_locations (\<lambda>j. 739000) 1 40 (- 83) 25 (\<lambda>i. i))). Depot_Flag r = ''TRUE'') \<and>
   length (fst (generate_synthetic_locations (\<lambda>j. 739000) 10 40 (- 83) 25 (\<lambda>i. i))) < 2 ^ 50 \<and>
   (\<exists>vs g'. generate_synthetic_vehicles (fst (generate_synthetic_locations (\<lambda>j. 739000) 1 40 (- 83) 25 (\<lambda>i. i))) (\<lambda>i. i)
        = (Inr vs, g') \<and> int (length vs) = 1) \<and>
   (\<exists>vs g'. generate_synthetic_vehicles (fst (generate_synthetic_locations (\<lambda>j. 739000) 3 40 (- 83) 25 (\<lambda>i. i))) (\<lambda>i. i)
        = (Inr vs, g') \<and> int (length vs) = 1) \<and>
   (\<exists>vs g'. generate_synthetic_vehicles (fst (generate_synthetic_locations (\<lambda>j. 739000) 4 40 (- 83) 25 (\<lambda>i. i))) (\<lambda>i. i)
        = (Inr vs, g') \<and> int (length vs) = 2) \<and>
   (\<exists>vs g'. generate_synthetic_vehicles (fst (generate_synthetic_locations (\<lambda>j. 739000) 10 40 (- 83) 25 (\<lambda>i. i))) (\<lambda>i. i)
        = (Inr vs, g') \<and> int (length vs) = 3)"
proof -
  have c: "\<lceil>3 / 10 * real (Suc 0)\<rceil> = 1" "\<lceil>3 / 10 * real (Suc 2)\<rceil> = 1"
    "\<lceil>3 / 10 * real (Suc 3)\<rceil> = 2" "\<lceil>3 / 10 * real (Suc 9)\<rceil> = 3"
    by (simp_all add: ceiling_three_tenths)
  have h: "\<exists>r \<in> set (fst (generate_synthetic_locations (\<lambda>j. 739000) n 40 (- 83) 25 (\<lambda>i. i))). Depot_Flag r = ''TRUE''"
    for n by (rule locations_have_depot)
  from fleet_size_of_table [OF h [of 1], of "\<lambda>i. i"] fleet_size_of_table [OF h [of 3], of "\<lambda>i. i"]
    fleet_size_of_table [OF h [of 4], of "\<lambda>i. i"] fleet_size_of_table [OF h [of 10], of "\<lambda>i. i"]
    h [of 1]
  show ?thesis unfolding length_locations by (simp add: c) blast
qed

text \<open>
  Claim C5. The vehicle builder fails exactly when no row of its input has the depot
  flag TRUE; it then fails with the configuration error, returns no row, and has drawn
  nothing from the random source.
\<close>

theorem no_depot_fails_fast:
  "((\<exists>e. fst (generate_synthetic_vehicles locs g) = Inl e) \<longleftrightarrow>
      (\<forall>r \<in> set locs. Depot_Flag r \<noteq> ''TRUE'')) \<and>
   ((\<forall>r \<in> set locs. Depot_Flag r \<noteq> ''TRUE'') \<longrightarrow>
      generate_synthetic_vehicles locs g =
        (Inl (ValueError ''No depot found in locations data; cannot generate vehicles.''), g))"
proof (cases "depot_ids_of locs = []")
  case True
  from vehicles_refused [OF True, of g] True show ?thesis
    by (simp add: depot_ids_of_empty)
next
  case False
  from vehicles_accepted [OF False, of g] False show ?thesis
    by (simp add: depot_ids_of_empty)
qed

theorem no_depot_fails_fast_witness:
  "Depot_Flag (location_row ''L002'' 40 (- 83) ''FALSE'' (fst (make_customer_fields 739000 (\<lambda>i. i)))) \<noteq> ''TRUE'' \<and>
   generate_synthetic_vehicles
     [location_row ''L002'' 40 (- 83) ''FALSE'' (fst (make_customer_fields 739000 (\<lambda>i. i)))] (\<lambda>i. i) =
     (Inl (ValueError ''No depot found in locations data; cannot generate vehicles.''), \<lambda>i. i) \<and>
   \<not> (\<exists>e. fst (generate_synthetic_vehicles
         (fst (generate_synthetic_locations (\<lambda>j. 739000) 1 40 (- 83) 25 (\<lambda>i. i))) (\<lambda>i. i)) = Inl e)"
proof -
  have f: "Depot_Flag (location_row ''L002'' 40 (- 83) ''FALSE'' (fst (make_customer_fields 739000 (\<lambda>i. i)))) \<noteq> ''TRUE''"
    by (simp add: location_row_def)
  from no_depot_fails_fast [of "[location_row ''L002'' 40 (- 83) ''FALSE'' (fst (make_customer_fields 739000 (\<lambda>i. i)))]" "\<lambda>i. i"]
    no_depot_fails_fast [of "fst (generate_synthetic_locations (\<lambda>j. 739000) 1 40 (- 83) 25 (\<lambda>i. i))" "\<lambda>i. i"]
    f show ?thesis
    by (simp add: locations_single location_row_def)
qed

section \<open>The urgency score\<close>

lemma urgency_eq:
  "Urgency_Score (fst (make_customer_fields today g)) = py_round (real (g 7 mod 2 ^ 53) / 2 ^ 53) 2"
proof -
  have seven: "(7::nat) = Suc (Suc (Suc (Suc (Suc (Suc (Suc 0))))))" by simp
  show ?thesis unfolding seven
    by (simp add: make_customer_fields_def split_def Let_def random_choice_eq random_randint_eq
      random_random_eq)
qed

lemma urgency_in:
  "\<exists>k\<le>100. Urgency_Score (fst (make_customer_fields today g)) = real k / 100"
proof -
  define u where "u = real (g 7 mod 2 ^ 53) / 2 ^ 53"
  have "g 7 mod 2 ^ 53 < (2::nat) ^ 53" by simp
  then have "real (g 7 mod 2 ^ 53) < 2 ^ 53"
    by (metis of_nat_less_iff of_nat_numeral of_nat_power)
  then have u: "0 \<le> u" "u < 1" by (simp_all add: u_def)
  then have "0 \<le> u * 100" "u * 100 < 100" by simp_all
  from round_half_even_range [OF this]
  have r: "0 \<le> round_half_even (u * 100)" "round_half_even (u * 100) \<le> 100" by simp_all
  define k where "k = nat (round_half_even (u * 100))"
  have "k \<le> 100" using r by (simp add: k_def)
  moreover have "py_round u 2 = real k / 100"
    using r by (simp add: py_round_def k_def)
  ultimately show ?thesis unfolding urgency_eq u_def [symmetric] by blast
qed

text \<open>Every hundredth from 0.00 to 1.00 is the urgency score of some draw.\<close>

lemma urgency_realised:
  assumes "k \<le> 100"
  shows "Urgency_Score (fst (make_customer_fields today (\<lambda>i. (k * 9007199254740991) div 100)))
         = real k / 100"
proof -
  define raw where "raw = (k * 9007199254740991) div 100"
  have d1: "100 * raw \<le> k * 9007199254740991" and d2: "k * 9007199254740991 < 100 * raw + 100"
    unfolding raw_def using dividend_less_times_div [of 100 "k * 9007199254740991"]
    by simp_all
  have "raw < 9007199254740992" using d1 assms by linarith
  then have m: "raw mod 9007199254740992 = raw" by simp
  define y where "y = real raw / 2 ^ 53 * 100"
  have "real (100 * raw) \<le> real (k * 9007199254740991)"
    using d1 by (rule iffD2 [OF of_nat_le_iff])
  then have y1: "y \<le> real k * 9007199254740991 / 9007199254740992"
    by (simp add: y_def)
  have "real (k * 9007199254740991) < real (100 * raw + 100)"
    using d2 by (rule iffD2 [OF of_nat_less_iff])
  then have y2: "(real k * 9007199254740991 - 100) / 9007199254740992 < y"
    by (simp add: y_def field_simps)
  have kr: "real k \<le> 100" using assms by simp
  have "real_of_int (int k) - 1 / 2 < y" using y2 kr by (simp add: field_simps)
  moreover have "y < real_of_int (int k) + 1 / 2" using y1 kr by (simp add: field_simps)
  ultimately have "round_half_even y = int k" by (rule round_half_even_near)
  then show ?thesis
    unfolding urgency_eq raw_def [symmetric]
    by (simp add: m py_round_def y_def)
qed

text \<open>
  Claim C9, as amended. The urgency score is a draw of \<open>random.random()\<close>, a value
  of \<open>[0, 1)\<close>, rounded to two decimals, and the values that the generator can realise
  are exactly the 101 hundredths 0.00, 0.01, \<open>\<dots>\<close>, 0.99, 1.00.
\<close>

theorem urgency_score_values:
  "(\<exists>u. 0 \<le> u \<and> u < 1 \<and> Urgency_Score (fst (make_customer_fields today g)) = py_round u 2) \<and>
   {Urgency_Score (fst (make_customer_fields today' g')) | today' g'. True}
     = {real k / 100 | k. k \<le> 100}"
proof (intro conjI equalityI subsetI)
  have "g 7 mod 2 ^ 53 < (2::nat) ^ 53" by simp
  then have "real (g 7 mod 2 ^ 53) < 2 ^ 53"
    by (metis of_nat_less_iff of_nat_numeral of_nat_power)
  then have "0 \<le> real (g 7 mod 2 ^ 53) / 2 ^ 53 \<and> real (g 7 mod 2 ^ 53) / 2 ^ 53 < 1"
    by simp
  then show "\<exists>u. 0 \<le> u \<and> u < 1 \<and> Urgency_Score (fst (make_customer_fields today g)) = py_round u 2"
    unfolding urgency_eq by blast
next
  fix x assume "x \<in> {Urgency_Score (fst (make_customer_fields today' g')) | today' g'. True}"
  then show "x \<in> {real k / 100 | k. k \<le> 100}" using urgency_in by auto
next
  fix x assume "x \<in> {real k / 100 | k. k \<le> 100}"
  then obtain k where "k \<le> 100" "x = real k / 100" by auto
  with urgency_realised [of k 0]
  have "x = Urgency_Score (fst (make_customer_fields 0 (\<lambda>i. (k * 9007199254740991) div 100)))"
    by simp
  then show "x \<in> {Urgency_Score (fst (make_customer_fields today' g')) | today' g'. True}"
    by blast
qed

text \<open>
  Claim C9 as stated, with 0.99 the largest score, fails on the largest draw of
  \<open>random.random()\<close>, \<open>1 - 2^-53\<close>: it rounds to 1.00.
\<close>

theorem urgency_score_one:
  "Urgency_Score (fst (make_customer_fields 739000 (\<lambda>i. 9007199254740991)))
     \<notin> {real k / 100 | k. k \<le> 99}"
proof -
  have "Urgency_Score (fst (make_customer_fields 739000 (\<lambda>i. 9007199254740991))) = 1"
    using urgency_realised [of 100 739000] by simp
  then show ?thesis by auto
qed

section \<open>Two runs\<close>

lemma sampled_rows_cong:
  assumes "\<forall>j. i - 1 \<le> j \<and> j < i - 1 + k \<longrightarrow> clock1 j = clock2 j" and "0 < i"
  shows "sampled_rows clock1 lat lon r k i g = sampled_rows clock2 lat lon r k i g"
  using assms
proof (induction k arbitrary: i g)
  case 0
  then show ?case by simp
next
  case (Suc k)
  from Suc.prems have "clock1 (i - 1) = clock2 (i - 1)" by simp
  then have row: "sampled_row clock1 lat lon r i g = sampled_row clock2 lat lon r i g"
    by (simp add: sampled_row_def)
  from Suc.prems have "\<forall>j. Suc i - 1 \<le> j \<and> j < Suc i - 1 + k \<longrightarrow> clock1 j = clock2 j"
    by auto
  from Suc.IH [OF this] row show ?case by simp
qed

lemma first_ripeness:
  "Ripeness_Date (fst (generate_synthetic_locations clock n lat lon r g) ! 0) = clock 0 + int (g 2 mod 4)"
proof -
  have two: "(2::nat) = Suc (Suc 0)" by simp
  show ?thesis unfolding two
    by (simp add: locations_first location_row_def make_customer_fields_def split_def Let_def
        random_choice_eq random_randint_eq random_random_eq)
qed

text \<open>
  A sampled row takes twelve draws whatever the clock reads, and the ripeness date of
  every row is the date read for it plus an offset that the seed fixes.
\<close>

lemma sampled_row_draws:
  "snd (sampled_row clock lat lon r i g) = (\<lambda>k. g (k + 12))"
proof -
  have twelve: "\<And>k::nat. k + 12 =
      Suc (Suc (Suc (Suc (Suc (Suc (Suc (Suc (Suc (Suc (Suc (Suc k)))))))))))" by simp
  show ?thesis unfolding twelve
    by (simp add: sampled_row_def random_point_within_radius_def make_customer_fields_def
        split_def Let_def random_choice_eq random_randint_eq random_random_eq random_uniform_eq)
qed

lemma sampled_row_ripeness:
  "Ripeness_Date (fst (sampled_row clock lat lon r i g)) = clock (i - 1) + int (g 5 mod 4)"
proof -
  have five: "(5::nat) = Suc (Suc (Suc (Suc (Suc 0))))" by simp
  show ?thesis unfolding five
    by (simp add: sampled_row_def random_point_within_radius_def make_customer_fields_def
        location_row_def split_def Let_def random_choice_eq random_randint_eq random_random_eq
        random_uniform_eq)
qed

lemma sampled_rows_ripeness:
  "j < k \<Longrightarrow> 0 < i \<Longrightarrow>
   Ripeness_Date (fst (sampled_rows clock lat lon r k i g) ! j) =
     clock (i - 1 + j) + int (g (12 * j + 5) mod 4)"
proof (induction k arbitrary: i j g)
  case 0
  then show ?case by simp
next
  case (Suc k)
  show ?case
  proof (cases j)
    case 0
    then show ?thesis using sampled_row_ripeness [of clock lat lon r i g]
      by (simp add: split_def Let_def)
  next
    case (Suc j')
    with Suc.prems have "j' < k" by simp
    from Suc.IH [OF this, of "Suc i" "snd (sampled_row clock lat lon r i g)"] Suc Suc.prems
    show ?thesis
      by (simp add: split_def Let_def sampled_row_draws add.commute add.left_commute)
  qed
qed

lemma locations_ripeness:
  assumes "j \<le> nat (n - 1)"
  shows "Ripeness_Date (fst (generate_synthetic_locations clock n lat lon r g) ! j) =
     clock j + int (g (if j = 0 then 2 else 12 * j + 2) mod 4)"
proof (cases j)
  case 0
  then show ?thesis by (simp add: first_ripeness)
next
  case (Suc j')
  with assms have "j' < nat (n - 1)" by simp
  from sampled_rows_ripeness [OF this, of 2 clock lat lon r "snd (make_customer_fields (clock 0) g)"]
    Suc show ?thesis
    by (simp add: generate_synthetic_locations_def split_def Let_def make_customer_fields_draws
        add.commute add.left_commute)
qed

text \<open>
  Claim C7, as amended. Two runs on the same seed and the same inputs return the same
  location table and the same vehicle table if and only if the calendar date read for
  each of the rows is the same in both runs.
\<close>

theorem runs_agree_iff_dates_agree:
  "generation_run clock1 seed num_records lat lon radius =
     generation_run clock2 seed num_records lat lon radius
   \<longleftrightarrow> (\<forall>j. j \<le> nat (num_records - 1) \<longrightarrow> clock1 j = clock2 j)"
proof
  assume eq: "generation_run clock1 seed num_records lat lon radius =
     generation_run clock2 seed num_records lat lon radius"
  show "\<forall>j. j \<le> nat (num_records - 1) \<longrightarrow> clock1 j = clock2 j"
  proof (intro allI impI)
    fix j assume j: "j \<le> nat (num_records - 1)"
    from eq have "fst (generate_synthetic_locations clock1 num_records lat lon radius seed) =
        fst (generate_synthetic_locations clock2 num_records lat lon radius seed)"
      by (simp add: generation_run_def split_def Let_def)
    then have "Ripeness_Date (fst (generate_synthetic_locations clock1 num_records lat lon radius seed) ! j) =
        Ripeness_Date (fst (generate_synthetic_locations clock2 num_records lat lon radius seed) ! j)"
      by simp
    then show "clock1 j = clock2 j"
      unfolding locations_ripeness [OF j] by simp
  qed
next
  assume a: "\<forall>j. j \<le> nat (num_records - 1) \<longrightarrow> clock1 j = clock2 j"
  then have "clock1 0 = clock2 0" by simp
  moreover from a have "\<forall>j. 2 - 1 \<le> j \<and> j < 2 - 1 + nat (num_records - 1) \<longrightarrow> clock1 j = clock2 j"
    by auto
  then have "\<And>g. sampled_rows clock1 lat lon radius (nat (num_records - 1)) 2 g =
        sampled_rows clock2 lat lon radius (nat (num_records - 1)) 2 g"
    by (rule sampled_rows_cong) simp
  ultimately have "generate_synthetic_locations clock1 num_records lat lon radius seed =
        generate_synthetic_locations clock2 num_records lat lon radius seed"
    by (simp add: generate_synthetic_locations_def)
  then show "generation_run clock1 seed num_records lat lon radius =
     generation_run clock2 seed num_records lat lon radius"
    by (simp add: generation_run_def)
qed

theorem runs_agree_iff_dates_agree_witness:
  "generation_run (\<lambda>j. 739000) (\<lambda>i. i) 2 40 (- 83) 25 =
     generation_run (\<lambda>j. if j \<le> 1 then 739000 else 739001) (\<lambda>i. i) 2 40 (- 83) 25 \<and>
   generation_run (\<lambda>j. 739000) (\<lambda>i. i) 2 40 (- 83) 25 \<noteq>
     generation_run (\<lambda>j. if j = 0 then 739000 else 739001) (\<lambda>i. i) 2 40 (- 83) 25"
proof
  show "generation_run (\<lambda>j. 739000) (\<lambda>i. i) 2 40 (- 83) 25 =
     generation_run (\<lambda>j. if j \<le> 1 then 739000 else 739001) (\<lambda>i. i) 2 40 (- 83) 25"
    by (subst runs_agree_iff_dates_agree) simp
  have "\<not> (\<forall>j. j \<le> nat (2 - 1) \<longrightarrow> (\<lambda>j. 739000::int) j = (\<lambda>j. if j = 0 then 739000 else 739001) j)"
    by (simp add: not_le) (rule exI [of _ 1], simp)
  then show "generation_run (\<lambda>j. 739000) (\<lambda>i. i) 2 40 (- 83) 25 \<noteq>
     generation_run (\<lambda>j. if j = 0 then 739000 else 739001) (\<lambda>i. i) 2 40 (- 83) 25"
    by (subst runs_agree_iff_dates_agree)
qed

text \<open>
  Claim C7 as stated, with the seed and the inputs alone fixed, fails: the same seed and
  the same inputs give two different location tables on two consecutive days.
\<close>

theorem same_seed_other_day:
  "generation_run (\<lambda>j. 739000) (\<lambda>i. 0) 1 0 0 0 \<noteq> generation_run (\<lambda>j. 739001) (\<lambda>i. 0) 1 0 0 0"
proof
  assume "generation_run (\<lambda>j. 739000) (\<lambda>i. 0) 1 0 0 0 = generation_run (\<lambda>j. 739001) (\<lambda>i. 0) 1 0 0 0"
  then have "fst (generation_run (\<lambda>j. 739000) (\<lambda>i. 0) 1 0 0 0) = fst (generation_run (\<lambda>j. 739001) (\<lambda>i. 0) 1 0 0 0)"
    by simp
  then have "fst (generate_synthetic_locations (\<lambda>j. 739000) 1 0 0 0 (\<lambda>i. 0)) =
             fst (generate_synthetic_locations (\<lambda>j. 739001) 1 0 0 0 (\<lambda>i. 0))"
    by (simp add: generation_run_def split_def Let_def)
  then have "Ripeness_Date (fst (generate_synthetic_locations (\<lambda>j. 739000) 1 0 0 0 (\<lambda>i. 0)) ! 0) =
             Ripeness_Date (fst (generate_synthetic_locations (\<lambda>j. 739001) 1 0 0 0 (\<lambda>i. 0)) ! 0)"
    by simp
  then show False by (simp add: first_ripeness)
qed

end
